(* ===== verification/Prelude.thy ===== *)
theory Prelude
  imports Main
begin

text \<open>
  Shared vocabulary of the development: the JavaScript primitives that
  \<^verbatim>\<open>src/src/wordle.js\<close> relies on, written out with the behaviour the
  language gives them, and the generic lemmas about them that the component
  theories use.
  \<^item> JS strings are modelled as \<^typ>\<open>string\<close> (lists of characters); every
    character of the model is read as an ASCII code unit.
  \<^item> An array or string read \<open>a[i]\<close> is \<open>js_get a i\<close>: \<open>None\<close> is JavaScript's
    \<open>undefined\<close>, which an out-of-range index yields instead of failing.
  \<^item> An array write \<open>a[i] = v\<close> is \<open>js_set\<close>: in range it replaces the element;
    beyond the end JavaScript grows the array (the gap is filled with the
    given filler value); a negative index creates a property, not an element,
    so the element list is unchanged.
  \<^item> \<open>String.prototype.toUpperCase\<close> is \<open>toUpperCase\<close>, exact on ASCII text.
\<close>

named_theorems js_simps \<open>characteristic equations of the modelled JavaScript primitives\<close>

type_synonym js_string = string

text \<open>JavaScript numbers used as counters and lengths are integers here.\<close>

type_synonym js_int = int

section \<open>Reading and writing arrays and strings\<close>

definition js_get :: "'a list \<Rightarrow> js_int \<Rightarrow> 'a option" where
  "js_get xs i = (if 0 \<le> i \<and> i < int (length xs) then Some (xs ! nat i) else None)"

definition js_set :: "'a \<Rightarrow> 'a list \<Rightarrow> js_int \<Rightarrow> 'a \<Rightarrow> 'a list" where
  "js_set hole xs i v =
     (if i < 0 then xs
      else if nat i < length xs then xs[nat i := v]
      else xs @ replicate (nat i - length xs) hole @ [v])"

section \<open>Upper-casing\<close>

definition to_upper_char :: "char \<Rightarrow> char" where
  "to_upper_char c =
     (let n = of_char c :: nat in if 97 \<le> n \<and> n \<le> 122 then char_of (n - 32) else c)"

definition toUpperCase :: "js_string \<Rightarrow> js_string" where
  "toUpperCase s = map to_upper_char s"

section \<open>Generic lemmas\<close>

lemma js_get_in_range [js_simps]:
  "i < length xs \<Longrightarrow> js_get xs (int i) = Some (xs ! i)"
  by (simp add: js_get_def)

lemma js_get_None_iff [js_simps]:
  "js_get xs i = None \<longleftrightarrow> i < 0 \<or> int (length xs) \<le> i"
  by (auto simp: js_get_def)

lemma js_get_Some_iff:
  "js_get xs i = Some v \<longleftrightarrow> 0 \<le> i \<and> i < int (length xs) \<and> xs ! nat i = v"
  by (auto simp: js_get_def)

lemma js_set_in_range [js_simps]:
  "i < length xs \<Longrightarrow> js_set hole xs (int i) v = xs[i := v]"
  by (simp add: js_set_def)

lemma length_js_set_in_range [js_simps]:
  "0 \<le> i \<Longrightarrow> i < int (length xs) \<Longrightarrow> length (js_set hole xs i v) = length xs"
  by (simp add: js_set_def)

lemma length_js_set:
  "length (js_set hole xs i v) = (if i < 0 then length xs else max (length xs) (nat i + 1))"
  by (simp add: js_set_def)

lemma js_set_grows:
  "length xs \<le> nat i \<Longrightarrow> 0 \<le> i \<Longrightarrow>
   js_set hole xs i v = xs @ replicate (nat i - length xs) hole @ [v]"
  by (simp add: js_set_def)

lemma of_char_to_upper_char:
  "of_char (to_upper_char c) =
     (if 97 \<le> (of_char c :: nat) \<and> (of_char c :: nat) \<le> 122 then of_char c - 32 else (of_char c :: nat))"
proof -
  have "(of_char c :: nat) < 256" by simp
  then have "(of_char c - 32 :: nat) mod 256 = of_char c - 32" by (intro mod_less) arith
  then show ?thesis by (simp add: to_upper_char_def Let_def)
qed

lemma to_upper_char_idem [simp]: "to_upper_char (to_upper_char c) = to_upper_char c"
proof (rule of_char_eqI)
  show "of_char (to_upper_char (to_upper_char c)) = (of_char (to_upper_char c) :: nat)"
    by (simp add: of_char_to_upper_char) arith
qed

lemma length_toUpperCase [simp]: "length (toUpperCase s) = length s"
  by (simp add: toUpperCase_def)

lemma toUpperCase_idem [simp]: "toUpperCase (toUpperCase s) = toUpperCase s"
  by (simp add: toUpperCase_def)

lemma toUpperCase_Nil [simp]: "toUpperCase [] = []"
  by (simp add: toUpperCase_def)

end
