(* ===== verification/Letters.thy ===== *)
theory Letters
  imports Prelude
begin

text \<open>
  The letter statuses and letter objects of \<^verbatim>\<open>src/src/wordle.js\<close>
  (lines 3--16): the frozen-by-convention object \<open>LETTER_STATUSES\<close> becomes the
  datatype \<open>status\<close>, whose constructors are rendered back to the JavaScript
  strings by \<open>LETTER_STATUSES\<close>; the object literal built by \<open>buildLetter\<close>
  is a record with the fields \<open>letter\<close> and \<open>status\<close>, polymorphic because
  \<open>buildLetter\<close> stores whatever it is given.
\<close>

datatype status = ABSENT | PRESENT | CORRECT

primrec LETTER_STATUSES :: "status \<Rightarrow> js_string" where
  "LETTER_STATUSES ABSENT = ''ABSENT''"
| "LETTER_STATUSES PRESENT = ''PRESENT''"
| "LETTER_STATUSES CORRECT = ''CORRECT''"

record ('l, 's) letter_obj =
  letter :: 'l
  status :: 's

text \<open>A scored letter of a guess: a one-character string and a status.\<close>

type_synonym letter = "(char, status) letter_obj"

definition buildLetter :: "'l \<Rightarrow> 's \<Rightarrow> ('l, 's) letter_obj" where
  "buildLetter l s = \<lparr>letter = l, status = s\<rparr>"

lemma buildLetter_sel [simp]:
  "letter (buildLetter l s) = l" "status (buildLetter l s) = s"
  by (simp_all add: buildLetter_def)

lemma LETTER_STATUSES_inj: "LETTER_STATUSES s = LETTER_STATUSES t \<longleftrightarrow> s = t"
  by (cases s; cases t) simp_all

end
