(* ===== verification/Wordle.thy ===== *)
theory Wordle
  imports Letters
begin

text \<open>
  The class \<open>Wordle\<close> of \<^verbatim>\<open>src/src/wordle.js\<close> (lines 18--77). Its
  instance fields are the record \<open>wordle\<close>; each method is one definition
  taking the instance and returning what the method returns, with the new
  instance where the method mutates it. A thrown \<open>Error\<close> is a value
  \<open>Inl\<close> of \<open>js_error\<close>; since every \<open>throw\<close> of the class precedes its first
  mutation, the instance after a throw is the instance before it.

  The imported functions \<open>getWord\<close> and \<open>isWord\<close> of \<^verbatim>\<open>words.js\<close> are the
  interface to the word source: the constructor receives the word that its
  call of \<open>getWord()\<close> returns, \<open>appendGuess\<close> receives \<open>isWord\<close> as a
  predicate, and both return the list of calls they make on the word source
  (\<open>ws_call\<close>), in order, besides their result.
\<close>

record wordle =
  wordSize :: nat
  maxGuesses :: js_int
  guesses :: "letter list option list"
  word :: js_string
  currGuess :: js_int

datatype js_error = Error js_string | RangeError js_string

datatype ws_call = GetWord | IsWord js_string

type_synonym 'a ws_result = "ws_call list \<times> (js_error + 'a)"

section \<open>Constructor\<close>

text \<open>
  \<open>new Wordle(maxGuesses)\<close>: the class fields give \<open>wordSize = 5\<close> and
  \<open>maxGuesses = 6\<close>; an argument that is \<open>null\<close> or \<open>undefined\<close> (\<open>None\<close>)
  keeps 6; \<open>new Array(n)\<close> throws a \<open>RangeError\<close> unless \<open>n\<close> is an array length
  (\<open>0 \<le> n < 2\<^sup>3\<^sup>2\<close>), before \<open>getWord\<close> is called; \<open>fill(null)\<close> makes every
  slot \<open>null\<close> (\<open>None\<close>). The first argument is the word that \<open>getWord()\<close>
  returns.
\<close>

definition new_Wordle :: "js_string \<Rightarrow> js_int option \<Rightarrow> wordle ws_result" where
  "new_Wordle got arg =
     (let m = (case arg of None \<Rightarrow> 6 | Some n \<Rightarrow> n)
      in if m < 0 \<or> 2 ^ 32 \<le> m then ([], Inl (RangeError ''Invalid array length''))
         else ([GetWord],
               Inr \<lparr>wordSize = 5, maxGuesses = m, guesses = replicate (nat m) None,
                    word = got, currGuess = 0\<rparr>))"

section \<open>Scoring a word\<close>

text \<open>
  \<open>buildGuessFromWord\<close>: \<open>word.split('')\<close> and \<open>map((letter, i) => ...)\<close>
  enumerate the characters with their index; \<open>this.word[i]\<close> is
  \<open>undefined\<close> beyond the secret word, and \<open>includes\<close> of a one-character
  string is membership.
\<close>

definition letter_status :: "js_string \<Rightarrow> nat \<Rightarrow> char \<Rightarrow> status" where
  "letter_status secret i l =
     (if js_get secret (int i) = Some l then CORRECT
      else if l \<in> set secret then PRESENT
      else ABSENT)"

definition buildGuessFromWord :: "wordle \<Rightarrow> js_string \<Rightarrow> letter list" where
  "buildGuessFromWord w wd =
     map (\<lambda>(i, l). buildLetter l (letter_status (word w) i l)) (enumerate 0 wd)"

section \<open>Appending a guess\<close>

definition appendGuess :: "(js_string \<Rightarrow> bool) \<Rightarrow> wordle \<Rightarrow> js_string \<Rightarrow> wordle ws_result" where
  "appendGuess isWord w wd =
     (let normalizedWord = toUpperCase wd
      in if maxGuesses w \<le> currGuess w then ([], Inl (Error ''No more guesses allowed''))
         else if length normalizedWord \<noteq> wordSize w
           then ([], Inl (Error ''Guess must be of length 5''))
         else if \<not> isWord normalizedWord
           then ([IsWord normalizedWord], Inl (Error ''Guess must be a word''))
         else ([IsWord normalizedWord],
               Inr (w\<lparr>guesses := js_set None (guesses w) (currGuess w)
                                   (Some (buildGuessFromWord w normalizedWord)),
                      currGuess := currGuess w + 1\<rparr>)))"

section \<open>Ending the game\<close>

text \<open>
  \<open>isSolved\<close> reads \<open>this.guesses[this.currGuess - 1]\<close>: \<open>undefined\<close>
  (\<open>None\<close>) before the first guess, \<open>null\<close> (\<open>Some None\<close>) for an empty slot;
  optional chaining and \<open>?? false\<close> make both \<open>false\<close>.
\<close>

definition isSolved :: "wordle \<Rightarrow> bool" where
  "isSolved w =
     (case js_get (guesses w) (currGuess w - 1) of
        Some (Some latest) \<Rightarrow> list_all (\<lambda>l. status l = CORRECT) latest
      | _ \<Rightarrow> False)"

definition shouldEndGame :: "wordle \<Rightarrow> bool" where
  "shouldEndGame w = (isSolved w \<or> maxGuesses w \<le> currGuess w)"

section \<open>The instance invariant\<close>

text \<open>
  What every instance built by the constructor and changed only by
  \<open>appendGuess\<close> satisfies: the word size is 5, the guess counter lies
  between 0 and \<open>maxGuesses\<close>, which is an array length, the guesses array
  has \<open>maxGuesses\<close> slots, exactly the first \<open>currGuess\<close> of them are filled,
  and every filled slot holds the scoring of its own letters against the
  secret word, of the word size.
\<close>

definition stored_guess_ok :: "wordle \<Rightarrow> letter list option \<Rightarrow> bool" where
  "stored_guess_ok w slot =
     (case slot of
        None \<Rightarrow> True
      | Some g \<Rightarrow> g = buildGuessFromWord w (map letter g) \<and> length g = wordSize w)"

definition wordle_inv :: "wordle \<Rightarrow> bool" where
  "wordle_inv w \<longleftrightarrow>
     wordSize w = 5 \<and> 0 \<le> currGuess w \<and> currGuess w \<le> maxGuesses w \<and>
     maxGuesses w < 2 ^ 32 \<and> length (guesses w) = nat (maxGuesses w) \<and>
     (\<forall>i < length (guesses w). (guesses w ! i \<noteq> None) = (int i < currGuess w)) \<and>
     list_all (stored_guess_ok w) (guesses w)"

section \<open>Scoring: shape of the result\<close>

lemma length_buildGuessFromWord [simp]: "length (buildGuessFromWord w wd) = length wd"
  by (simp add: buildGuessFromWord_def)

lemma nth_buildGuessFromWord [simp]:
  "i < length wd \<Longrightarrow>
   buildGuessFromWord w wd ! i = buildLetter (wd ! i) (letter_status (word w) i (wd ! i))"
  by (simp add: buildGuessFromWord_def nth_enumerate_eq)

lemma map_letter_buildGuessFromWord [simp]: "map letter (buildGuessFromWord w wd) = wd"
  by (rule nth_equalityI) simp_all

lemma buildGuessFromWord_word_only:
  "word w' = word w \<Longrightarrow> buildGuessFromWord w' = buildGuessFromWord w"
  by (simp add: buildGuessFromWord_def fun_eq_iff)

lemma buildGuessFromWord_update [simp]:
  "buildGuessFromWord (w\<lparr>guesses := gs\<rparr>) = buildGuessFromWord w"
  "buildGuessFromWord (w\<lparr>currGuess := c\<rparr>) = buildGuessFromWord w"
  by (rule buildGuessFromWord_word_only, simp)+

lemma stored_guess_ok_update [simp]:
  "stored_guess_ok (w\<lparr>guesses := gs\<rparr>) = stored_guess_ok w"
  "stored_guess_ok (w\<lparr>currGuess := c\<rparr>) = stored_guess_ok w"
  by (simp_all add: stored_guess_ok_def fun_eq_iff split: option.split)

lemma stored_guess_ok_scored:
  "length wd = wordSize w \<Longrightarrow> stored_guess_ok w (Some (buildGuessFromWord w wd))"
  by (simp add: stored_guess_ok_def)

section \<open>appendGuess, branch by branch\<close>

lemma appendGuess_accepts:
  "currGuess w < maxGuesses w \<Longrightarrow> length wd = wordSize w \<Longrightarrow> isWord (toUpperCase wd) \<Longrightarrow>
   appendGuess isWord w wd =
     ([IsWord (toUpperCase wd)],
      Inr (w\<lparr>guesses := js_set None (guesses w) (currGuess w)
                          (Some (buildGuessFromWord w (toUpperCase wd))),
             currGuess := currGuess w + 1\<rparr>))"
  by (simp add: appendGuess_def Let_def)

lemma appendGuess_Inr:
  "snd (appendGuess isWord w wd) = Inr w' \<longleftrightarrow>
     currGuess w < maxGuesses w \<and> length wd = wordSize w \<and> isWord (toUpperCase wd) \<and>
     w' = w\<lparr>guesses := js_set None (guesses w) (currGuess w)
                         (Some (buildGuessFromWord w (toUpperCase wd))),
            currGuess := currGuess w + 1\<rparr>"
  by (auto simp: appendGuess_def Let_def)

lemma appendGuess_Inl_state:
  "snd (appendGuess isWord w wd) = Inl e \<Longrightarrow> \<not> currGuess w < maxGuesses w \<or>
     length wd \<noteq> wordSize w \<or> \<not> isWord (toUpperCase wd)"
  by (auto simp: appendGuess_def Let_def split: if_splits)

section \<open>The constructor establishes the invariant, appendGuess keeps it\<close>

lemma new_Wordle_Inr:
  "snd (new_Wordle got arg) = Inr w \<longleftrightarrow>
     (let m = (case arg of None \<Rightarrow> 6 | Some n \<Rightarrow> n)
      in 0 \<le> m \<and> m < 2 ^ 32 \<and>
         w = \<lparr>wordSize = 5, maxGuesses = m, guesses = replicate (nat m) None,
              word = got, currGuess = 0\<rparr>)"
  by (auto simp: new_Wordle_def Let_def)

lemma new_Wordle_establishes_inv:
  assumes "snd (new_Wordle got arg) = Inr w"
  shows "wordle_inv w"
  using assms by (auto simp: new_Wordle_Inr Let_def wordle_inv_def list_all_iff stored_guess_ok_def)

lemma wordle_inv_slot:
  assumes "wordle_inv w" "currGuess w < maxGuesses w"
  obtains c where "currGuess w = int c" "c < length (guesses w)"
proof -
  from assms(1) have "0 \<le> currGuess w" by (simp add: wordle_inv_def)
  then obtain c where c: "currGuess w = int c" by (metis nonneg_int_cases)
  with assms have "c < length (guesses w)" by (simp add: wordle_inv_def)
  with c show ?thesis by (rule that)
qed

lemma appendGuess_keeps_inv:
  assumes inv: "wordle_inv w" and ok: "snd (appendGuess isWord w wd) = Inr w'"
  shows "wordle_inv w'"
proof -
  let ?g = "buildGuessFromWord w (toUpperCase wd)"
  from ok have more: "currGuess w < maxGuesses w" and len: "length wd = wordSize w"
    and w': "w' = w\<lparr>guesses := js_set None (guesses w) (currGuess w) (Some ?g),
                    currGuess := currGuess w + 1\<rparr>"
    by (simp_all add: appendGuess_Inr)
  obtain c where c: "currGuess w = int c" and c_lt: "c < length (guesses w)"
    using inv more by (rule wordle_inv_slot)
  have set: "js_set None (guesses w) (currGuess w) (Some ?g) = (guesses w)[c := Some ?g]"
    using c c_lt by (simp add: js_simps)
  have ok_g: "stored_guess_ok w (Some ?g)"
    using len by (simp add: stored_guess_ok_scored)
  show ?thesis
    using inv more c c_lt ok_g unfolding w' set wordle_inv_def
    by (auto simp: nth_list_update list_all_length)
qed

section \<open>Properties of the class\<close>

text \<open>
  C1. A guess that passes the three checks is scored against the secret word,
  stored in the slot \<open>currGuess\<close> of the guesses array (which, by the
  invariant, is inside the array, so the array does not grow), and the counter
  moves on by one; \<open>isWord\<close> is asked once, about the upper-cased word.
\<close>

lemma appendGuess_records_guess:
  assumes inv: "wordle_inv w" and more: "currGuess w < maxGuesses w"
    and len: "length wd = 5" and known: "isWord (toUpperCase wd)"
  shows "appendGuess isWord w wd =
           ([IsWord (toUpperCase wd)],
            Inr (w\<lparr>guesses := (guesses w)[nat (currGuess w) :=
                                      Some (buildGuessFromWord w (toUpperCase wd))],
                   currGuess := currGuess w + 1\<rparr>))"
proof -
  obtain c where c: "currGuess w = int c" and c_lt: "c < length (guesses w)"
    using inv more by (rule wordle_inv_slot)
  have "length wd = wordSize w" using inv len by (simp add: wordle_inv_def)
  with more known show ?thesis using c c_lt by (simp add: appendGuess_def Let_def js_simps)
qed

lemma appendGuess_records_guess_witness:
  "wordle_inv \<lparr>wordSize = 5, maxGuesses = 6, guesses = replicate 6 None, word = ''APPLE'', currGuess = 0\<rparr> \<and>
   appendGuess (\<lambda>_. True) \<lparr>wordSize = 5, maxGuesses = 6, guesses = replicate 6 None, word = ''APPLE'', currGuess = 0\<rparr> ''guess'' =
     ([IsWord ''GUESS''],
      Inr \<lparr>wordSize = 5, maxGuesses = 6,
           guesses = [Some (buildGuessFromWord \<lparr>wordSize = 5, maxGuesses = 6, guesses = replicate 6 None, word = ''APPLE'', currGuess = 0\<rparr> ''GUESS''), None, None, None, None, None],
           word = ''APPLE'', currGuess = 1\<rparr>)"
proof -
  have inv: "wordle_inv \<lparr>wordSize = 5, maxGuesses = 6, guesses = replicate 6 None, word = ''APPLE'', currGuess = 0\<rparr>" by code_simp
  have up: "toUpperCase ''guess'' = ''GUESS''" by code_simp
  show ?thesis
    using appendGuess_records_guess [OF inv, of "''guess''" "\<lambda>_. True"] inv up
    by (simp add: numeral_eq_Suc)
qed

text \<open>
  C2. The first check: once \<open>currGuess\<close> has reached \<open>maxGuesses\<close>, every
  call throws \<open>No more guesses allowed\<close>, whatever the word, and the word
  source is not consulted.
\<close>

lemma appendGuess_exhausted:
  "maxGuesses w \<le> currGuess w \<Longrightarrow>
   appendGuess isWord w wd = ([], Inl (Error ''No more guesses allowed''))"
  by (simp add: appendGuess_def)

lemma appendGuess_exhausted_witness:
  "maxGuesses \<lparr>wordSize = 5, maxGuesses = 1, guesses = [Some []], word = ''APPLE'', currGuess = 1\<rparr> \<le> currGuess \<lparr>wordSize = 5, maxGuesses = 1, guesses = [Some []], word = ''APPLE'', currGuess = 1\<rparr> \<and>
   appendGuess (\<lambda>_. True) \<lparr>wordSize = 5, maxGuesses = 1, guesses = [Some []], word = ''APPLE'', currGuess = 1\<rparr> ''guess'' = ([], Inl (Error ''No more guesses allowed''))"
  using appendGuess_exhausted [of "\<lparr>wordSize = 5, maxGuesses = 1, guesses = [Some []], word = ''APPLE'', currGuess = 1\<rparr>" "\<lambda>_. True" "''guess''"] by simp

text \<open>
  C3. The second check, reached only with guesses left: a word whose
  upper-cased length is not \<open>wordSize\<close> throws \<open>Guess must be of length 5\<close>
  before the word source is consulted.
\<close>

lemma appendGuess_bad_length:
  "currGuess w < maxGuesses w \<Longrightarrow> length wd \<noteq> wordSize w \<Longrightarrow>
   appendGuess isWord w wd = ([], Inl (Error ''Guess must be of length 5''))"
  by (simp add: appendGuess_def)

lemma appendGuess_bad_length_witness:
  "currGuess \<lparr>wordSize = 5, maxGuesses = 6, guesses = replicate 6 None, word = ''APPLE'', currGuess = 0\<rparr> < maxGuesses \<lparr>wordSize = 5, maxGuesses = 6, guesses = replicate 6 None, word = ''APPLE'', currGuess = 0\<rparr> \<and> length ''GUES'' \<noteq> wordSize \<lparr>wordSize = 5, maxGuesses = 6, guesses = replicate 6 None, word = ''APPLE'', currGuess = 0\<rparr> \<and>
   appendGuess (\<lambda>_. True) \<lparr>wordSize = 5, maxGuesses = 6, guesses = replicate 6 None, word = ''APPLE'', currGuess = 0\<rparr> ''GUES'' = ([], Inl (Error ''Guess must be of length 5''))"
  using appendGuess_bad_length [of "\<lparr>wordSize = 5, maxGuesses = 6, guesses = replicate 6 None, word = ''APPLE'', currGuess = 0\<rparr>" "''GUES''" "\<lambda>_. True"] by simp

text \<open>
  C4. The third check, reached only with guesses left and the right length:
  the word source is asked once about the upper-cased word, and a rejected
  word throws \<open>Guess must be a word\<close>.
\<close>

lemma appendGuess_not_word:
  "currGuess w < maxGuesses w \<Longrightarrow> length wd = wordSize w \<Longrightarrow> \<not> isWord (toUpperCase wd) \<Longrightarrow>
   appendGuess isWord w wd = ([IsWord (toUpperCase wd)], Inl (Error ''Guess must be a word''))"
  by (simp add: appendGuess_def)

lemma appendGuess_not_word_witness:
  "currGuess \<lparr>wordSize = 5, maxGuesses = 6, guesses = replicate 6 None, word = ''APPLE'', currGuess = 0\<rparr> < maxGuesses \<lparr>wordSize = 5, maxGuesses = 6, guesses = replicate 6 None, word = ''APPLE'', currGuess = 0\<rparr> \<and> length ''GUESS'' = wordSize \<lparr>wordSize = 5, maxGuesses = 6, guesses = replicate 6 None, word = ''APPLE'', currGuess = 0\<rparr> \<and>
   \<not> (\<lambda>_. False) (toUpperCase ''GUESS'') \<and>
   appendGuess (\<lambda>_. False) \<lparr>wordSize = 5, maxGuesses = 6, guesses = replicate 6 None, word = ''APPLE'', currGuess = 0\<rparr> ''GUESS'' = ([IsWord (toUpperCase ''GUESS'')], Inl (Error ''Guess must be a word''))"
  using appendGuess_not_word [of "\<lparr>wordSize = 5, maxGuesses = 6, guesses = replicate 6 None, word = ''APPLE'', currGuess = 0\<rparr>" "''GUESS''" "\<lambda>_. False"] by simp

text \<open>
  C5. \<open>new Wordle(n)\<close> with \<open>n\<close> negative or not below \<open>2\<^sup>3\<^sup>2\<close> throws
  the \<open>RangeError\<close> of \<open>new Array(n)\<close>, before \<open>getWord\<close> is called.
\<close>

lemma new_Wordle_range_error:
  "n < 0 \<or> 2 ^ 32 \<le> n \<Longrightarrow>
   new_Wordle got (Some n) = ([], Inl (RangeError ''Invalid array length''))"
  by (auto simp: new_Wordle_def)

lemma new_Wordle_range_error_witness:
  "((-1::int) < 0 \<or> 2 ^ 32 \<le> (-1::int)) \<and>
   new_Wordle ''APPLE'' (Some (-1)) = ([], Inl (RangeError ''Invalid array length''))"
  using new_Wordle_range_error [of "-1" "''APPLE''"] by simp

text \<open>
  C6. Before the first guess (\<open>currGuess = 0\<close>), \<open>isSolved\<close> reads index
  \<open>-1\<close>, gets \<open>undefined\<close>, and answers false.
\<close>

lemma isSolved_before_first_guess:
  "currGuess w = 0 \<Longrightarrow> \<not> isSolved w"
  by (simp add: isSolved_def js_get_def)

lemma isSolved_before_first_guess_witness:
  "currGuess \<lparr>wordSize = 5, maxGuesses = 6, guesses = replicate 6 None, word = ''APPLE'', currGuess = 0\<rparr> = 0 \<and> \<not> isSolved \<lparr>wordSize = 5, maxGuesses = 6, guesses = replicate 6 None, word = ''APPLE'', currGuess = 0\<rparr>"
  using isSolved_before_first_guess [of "\<lparr>wordSize = 5, maxGuesses = 6, guesses = replicate 6 None, word = ''APPLE'', currGuess = 0\<rparr>"] by simp

text \<open>
  C7. Calls on the word source made by \<open>appendGuess\<close>: exactly one
  \<open>isWord\<close> call, on the upper-cased word, when guesses remain and the
  length is right, and none otherwise.
\<close>

lemma appendGuess_word_source_calls:
  "fst (appendGuess isWord w wd) =
     (if currGuess w < maxGuesses w \<and> length wd = wordSize w then [IsWord (toUpperCase wd)] else [])"
  by (simp add: appendGuess_def Let_def)

text \<open>
  C8. The constructor calls \<open>getWord\<close> exactly once when it returns an
  instance, and not at all when it throws.
\<close>

lemma new_Wordle_word_source_calls:
  "fst (new_Wordle got arg) = (case snd (new_Wordle got arg) of Inl _ \<Rightarrow> [] | Inr _ \<Rightarrow> [GetWord])"
  by (simp add: new_Wordle_def Let_def)

end
