(* ===== verification/Scoring.thy ===== *)
theory Scoring
  imports Wordle "HOL-Library.Sublist"
begin

text \<open>
  What \<open>buildGuessFromWord\<close> (\<^verbatim>\<open>src/src/wordle.js\<close>, lines 31--44) computes:
  the status of every position in closed form, when a scored guess is all
  \<open>CORRECT\<close>, and how the scoring compares with the two-pass scoring of the
  standard game, which credits each letter of the secret word at most once.
  The standard scoring is a reference definition here, not code of the
  repository: \<open>unmatched\<close> collects the letters of the secret word that are
  not matched in place, and \<open>score_pass\<close> scans the guess from left to
  right, spending one such letter on every \<open>PRESENT\<close>.
\<close>

definition unmatched :: "js_string \<Rightarrow> js_string \<Rightarrow> char list" where
  "unmatched secret wd =
     map snd (filter (\<lambda>(j, c). js_get wd (int j) \<noteq> Some c) (enumerate 0 secret))"

fun score_pass :: "char list \<Rightarrow> js_string \<Rightarrow> nat \<Rightarrow> js_string \<Rightarrow> letter list" where
  "score_pass pool secret i [] = []"
| "score_pass pool secret i (c # cs) =
     (if js_get secret (int i) = Some c
      then buildLetter c CORRECT # score_pass pool secret (Suc i) cs
      else if c \<in> set pool
      then buildLetter c PRESENT # score_pass (remove1 c pool) secret (Suc i) cs
      else buildLetter c ABSENT # score_pass pool secret (Suc i) cs)"

definition standard_score :: "js_string \<Rightarrow> js_string \<Rightarrow> letter list" where
  "standard_score secret wd = score_pass (unmatched secret wd) secret 0 wd"

text \<open>
  The loop invariant of \<open>score_pass\<close>: every letter still to be scored
  that occurs in the secret word but not in place has a copy left in the pool.
\<close>

definition pool_covers :: "char list \<Rightarrow> js_string \<Rightarrow> nat \<Rightarrow> js_string \<Rightarrow> bool" where
  "pool_covers pool s i cs =
     (\<forall>(k, c) \<in> set (enumerate i cs). c \<in> set s \<and> js_get s (int k) \<noteq> Some c \<longrightarrow> c \<in> set pool)"

section \<open>The status of one position\<close>

lemma js_get_char_iff: "js_get s (int i) = Some c \<longleftrightarrow> i < length s \<and> s ! i = c"
  by (auto simp: js_get_def)

lemma letter_status_CORRECT_iff:
  "letter_status s i c = CORRECT \<longleftrightarrow> i < length s \<and> s ! i = c"
  by (simp add: letter_status_def js_get_char_iff)

lemma letter_status_PRESENT_iff:
  "letter_status s i c = PRESENT \<longleftrightarrow> \<not> (i < length s \<and> s ! i = c) \<and> c \<in> set s"
  by (simp add: letter_status_def js_get_char_iff)

lemma letter_status_ABSENT_iff:
  "letter_status s i c = ABSENT \<longleftrightarrow> c \<notin> set s"
  by (auto simp: letter_status_def js_get_char_iff)

lemma prefix_iff_nth:
  "prefix xs ys \<longleftrightarrow> length xs \<le> length ys \<and> (\<forall>i < length xs. xs ! i = ys ! i)"
proof
  assume "prefix xs ys"
  then obtain zs where "ys = xs @ zs" by (auto simp: prefix_def)
  then show "length xs \<le> length ys \<and> (\<forall>i < length xs. xs ! i = ys ! i)"
    by (simp add: nth_append)
next
  assume r: "length xs \<le> length ys \<and> (\<forall>i < length xs. xs ! i = ys ! i)"
  then have "take (length xs) ys = xs"
    by (intro nth_equalityI) simp_all
  then show "prefix xs ys"
    by (metis take_is_prefix)
qed


lemma list_all_CORRECT_buildGuessFromWord:
  "list_all (\<lambda>l. status l = CORRECT) (buildGuessFromWord w wd) \<longleftrightarrow>
   (\<forall>i < length wd. i < length (word w) \<and> word w ! i = wd ! i)"
  by (simp add: list_all_length letter_status_CORRECT_iff)

lemma list_all_CORRECT_same_length:
  assumes "length wd = length (word w)"
  shows "list_all (\<lambda>l. status l = CORRECT) (buildGuessFromWord w wd) \<longleftrightarrow> wd = word w"
  using assms by (auto simp: list_all_CORRECT_buildGuessFromWord intro: nth_equalityI)

lemma length_filter_eq_count_list: "length (filter (\<lambda>x. x = c) xs) = count_list xs c"
  by (induction xs) simp_all

section \<open>Reference scoring: the loop invariant\<close>

lemma snd_in_set_enumerate: "p \<in> set (enumerate n xs) \<Longrightarrow> snd p \<in> set xs"
  by (metis list.set_map map_snd_enumerate image_eqI)

lemma pool_covers_Cons:
  "pool_covers pool s i (c # cs) \<longleftrightarrow>
     (c \<in> set s \<and> js_get s (int i) \<noteq> Some c \<longrightarrow> c \<in> set pool) \<and> pool_covers pool s (Suc i) cs"
  by (simp add: pool_covers_def)

lemma pool_covers_remove1:
  assumes "pool_covers pool s i cs" "c \<notin> set cs"
  shows "pool_covers (remove1 c pool) s i cs"
  unfolding pool_covers_def
proof (intro ballI impI, clarify)
  fix k d
  assume mem: "(k, d) \<in> set (enumerate i cs)" and d: "d \<in> set s" "js_get s (int k) \<noteq> Some d"
  from mem have "d \<in> set cs" by (auto dest: snd_in_set_enumerate)
  with assms(2) have "d \<noteq> c" by blast
  moreover from assms(1) mem d have "d \<in> set pool" by (auto simp: pool_covers_def)
  ultimately show "d \<in> set (remove1 c pool)" by simp
qed

lemma score_pass_letter_status:
  assumes "distinct cs" and "set pool \<subseteq> set s" and "pool_covers pool s i cs"
  shows "score_pass pool s i cs = map (\<lambda>(k, c). buildLetter c (letter_status s k c)) (enumerate i cs)"
  using assms
proof (induction cs arbitrary: pool i)
  case Nil
  then show ?case by simp
next
  case (Cons c cs)
  from Cons.prems have dist: "distinct cs" "c \<notin> set cs" by simp_all
  from Cons.prems(3) have here: "c \<in> set s \<and> js_get s (int i) \<noteq> Some c \<longrightarrow> c \<in> set pool"
    and rest: "pool_covers pool s (Suc i) cs" by (simp_all add: pool_covers_Cons)
  show ?case
  proof (cases "js_get s (int i) = Some c")
    case True
    then have "letter_status s i c = CORRECT" by (simp add: letter_status_def)
    with True Cons.IH [OF dist(1) Cons.prems(2) rest] show ?thesis by simp
  next
    case green: False
    show ?thesis
    proof (cases "c \<in> set pool")
      case True
      with Cons.prems(2) green have st: "letter_status s i c = PRESENT"
        by (auto simp: letter_status_def)
      have sub: "set (remove1 c pool) \<subseteq> set s"
        using set_remove1_subset [of c pool] Cons.prems(2) by (rule subset_trans)
      have cov: "pool_covers (remove1 c pool) s (Suc i) cs"
        using rest dist(2) by (rule pool_covers_remove1)
      from green True st Cons.IH [OF dist(1) sub cov] show ?thesis by simp
    next
      case False
      with here green have "c \<notin> set s" by blast
      then have "letter_status s i c = ABSENT" by (simp add: letter_status_ABSENT_iff)
      with False green Cons.IH [OF dist(1) Cons.prems(2) rest] show ?thesis by simp
    qed
  qed
qed

lemma set_unmatched_subset: "set (unmatched s g) \<subseteq> set s"
  by (auto simp: unmatched_def dest: snd_in_set_enumerate)

lemma unmatched_covers:
  assumes "distinct g"
  shows "pool_covers (unmatched s g) s 0 g"
  unfolding pool_covers_def
proof (intro ballI impI, clarify)
  fix k d
  assume mem: "(k, d) \<in> set (enumerate 0 g)" and d: "d \<in> set s" and miss: "js_get s (int k) \<noteq> Some d"
  from mem have k: "k < length g" "g ! k = d" by (simp_all add: in_set_enumerate_eq)
  from d obtain j where j: "j < length s" "s ! j = d" by (auto simp: in_set_conv_nth)
  have "js_get g (int j) \<noteq> Some (s ! j)"
  proof
    assume "js_get g (int j) = Some (s ! j)"
    then have "j < length g" "g ! j = g ! k" using j k by (auto simp: js_get_char_iff)
    with assms k(1) have "j = k" using nth_eq_iff_index_eq by blast
    with j miss show False by (simp add: js_get_char_iff)
  qed
  then have "(j, s ! j) \<in> set (filter (\<lambda>(j, c). js_get g (int j) \<noteq> Some c) (enumerate 0 s))"
    using j by (simp add: in_set_enumerate_eq)
  then have "snd (j, s ! j) \<in> snd ` set (filter (\<lambda>(j, c). js_get g (int j) \<noteq> Some c) (enumerate 0 s))"
    by (rule imageI)
  then show "d \<in> set (unmatched s g)"
    unfolding unmatched_def list.set_map snd_conv j(2) .
qed


section \<open>Properties of the scoring\<close>

text \<open>
  C12. The status of each position of a scored guess in closed form:
  \<open>CORRECT\<close> exactly when the secret word has the same letter at that
  position, \<open>PRESENT\<close> when it does not but has the letter elsewhere,
  \<open>ABSENT\<close> exactly when the letter does not occur in the secret word.
\<close>

lemma buildGuessFromWord_status:
  assumes "i < length wd"
  shows "(status (buildGuessFromWord w wd ! i) = CORRECT \<longleftrightarrow>
            i < length (word w) \<and> word w ! i = wd ! i) \<and>
         (status (buildGuessFromWord w wd ! i) = PRESENT \<longleftrightarrow>
            \<not> (i < length (word w) \<and> word w ! i = wd ! i) \<and> wd ! i \<in> set (word w)) \<and>
         (status (buildGuessFromWord w wd ! i) = ABSENT \<longleftrightarrow> wd ! i \<notin> set (word w))"
  using assms
  by (simp add: letter_status_CORRECT_iff letter_status_PRESENT_iff letter_status_ABSENT_iff)

lemma buildGuessFromWord_status_witness:
  "(1::nat) < length ''EPXXX'' \<and>
   status (buildGuessFromWord \<lparr>wordSize = 5, maxGuesses = 6, guesses = replicate 6 None, word = ''APPLE'', currGuess = 0\<rparr> ''EPXXX'' ! 1) = CORRECT \<and>
   status (buildGuessFromWord \<lparr>wordSize = 5, maxGuesses = 6, guesses = replicate 6 None, word = ''APPLE'', currGuess = 0\<rparr> ''EPXXX'' ! 0) = PRESENT \<and>
   status (buildGuessFromWord \<lparr>wordSize = 5, maxGuesses = 6, guesses = replicate 6 None, word = ''APPLE'', currGuess = 0\<rparr> ''EPXXX'' ! 2) = ABSENT"
proof -
  have "status (buildGuessFromWord \<lparr>wordSize = 5, maxGuesses = 6, guesses = replicate 6 None, word = ''APPLE'', currGuess = 0\<rparr> ''EPXXX'' ! 1) = CORRECT"
    using buildGuessFromWord_status [of 1 "''EPXXX''" "\<lparr>wordSize = 5, maxGuesses = 6, guesses = replicate 6 None, word = ''APPLE'', currGuess = 0\<rparr>"] by simp
  moreover have "status (buildGuessFromWord \<lparr>wordSize = 5, maxGuesses = 6, guesses = replicate 6 None, word = ''APPLE'', currGuess = 0\<rparr> ''EPXXX'' ! 0) = PRESENT"
    using buildGuessFromWord_status [of 0 "''EPXXX''" "\<lparr>wordSize = 5, maxGuesses = 6, guesses = replicate 6 None, word = ''APPLE'', currGuess = 0\<rparr>"] by simp
  moreover have "status (buildGuessFromWord \<lparr>wordSize = 5, maxGuesses = 6, guesses = replicate 6 None, word = ''APPLE'', currGuess = 0\<rparr> ''EPXXX'' ! 2) = ABSENT"
    using buildGuessFromWord_status [of 2 "''EPXXX''" "\<lparr>wordSize = 5, maxGuesses = 6, guesses = replicate 6 None, word = ''APPLE'', currGuess = 0\<rparr>"] by simp
  ultimately show ?thesis by simp
qed

text \<open>
  C13. A scored guess is all \<open>CORRECT\<close> exactly when the guessed word is a
  prefix of the secret word. With a secret of the word size this is equality;
  a longer secret word would be "solved" by its first five letters.
\<close>

lemma all_correct_iff_prefix:
  "list_all (\<lambda>l. status l = CORRECT) (buildGuessFromWord w wd) \<longleftrightarrow> prefix wd (word w)"
proof -
  have "list_all (\<lambda>l. status l = CORRECT) (buildGuessFromWord w wd) \<longleftrightarrow>
        (\<forall>i < length wd. i < length (word w) \<and> word w ! i = wd ! i)"
    by (rule list_all_CORRECT_buildGuessFromWord)
  also have "\<dots> \<longleftrightarrow> prefix wd (word w)"
  proof
    assume all: "\<forall>i < length wd. i < length (word w) \<and> word w ! i = wd ! i"
    have "length wd \<le> length (word w)"
    proof (rule ccontr)
      assume "\<not> length wd \<le> length (word w)"
      then have "length (word w) < length wd" by simp
      with all have "length (word w) < length (word w)" by blast
      then show False by simp
    qed
    with all show "prefix wd (word w)" by (simp add: prefix_iff_nth)
  next
    assume "prefix wd (word w)"
    then show "\<forall>i < length wd. i < length (word w) \<and> word w ! i = wd ! i"
      by (auto simp: prefix_iff_nth)
  qed
  finally show ?thesis .
qed

text \<open>
  C14. On a guess without repeated letters the engine's scoring is the
  standard two-pass scoring, which credits each letter of the secret word at
  most once.
\<close>

lemma buildGuessFromWord_eq_standard_score:
  "distinct wd \<Longrightarrow> buildGuessFromWord w wd = standard_score (word w) wd"
proof -
  assume d: "distinct wd"
  have "score_pass (unmatched (word w) wd) (word w) 0 wd =
        map (\<lambda>(k, c). buildLetter c (letter_status (word w) k c)) (enumerate 0 wd)"
    using d set_unmatched_subset unmatched_covers [OF d] by (rule score_pass_letter_status)
  then show ?thesis by (simp only: standard_score_def buildGuessFromWord_def)
qed


lemma buildGuessFromWord_eq_standard_score_witness:
  "distinct ''CLEAN'' \<and> buildGuessFromWord \<lparr>wordSize = 5, maxGuesses = 6, guesses = replicate 6 None, word = ''APPLE'', currGuess = 0\<rparr> ''CLEAN'' = standard_score ''APPLE'' ''CLEAN''"
  using buildGuessFromWord_eq_standard_score [of "''CLEAN''" "\<lparr>wordSize = 5, maxGuesses = 6, guesses = replicate 6 None, word = ''APPLE'', currGuess = 0\<rparr>"] by simp

text \<open>
  C15. How often a letter is credited: the positions of a scored guess that
  hold the letter \<open>c\<close> and are not \<open>ABSENT\<close> are all its occurrences in
  the guess when \<open>c\<close> occurs in the secret word, and none otherwise. The
  number is not bounded by the occurrences of \<open>c\<close> in the secret: a letter
  repeated in the guess is credited every time (against \<open>APPLE\<close>,
  \<open>PPPPP\<close> has five credited \<open>P\<close>s), where standard scoring credits at most
  as many as the secret holds.
\<close>

lemma credited_count:
  "length (filter (\<lambda>l. letter l = c \<and> status l \<noteq> ABSENT) (buildGuessFromWord w wd)) =
     (if c \<in> set (word w) then count_list wd c else 0)"
proof -
  have "\<forall>l \<in> set (buildGuessFromWord w wd). (status l \<noteq> ABSENT) = (letter l \<in> set (word w))"
    by (auto simp: in_set_conv_nth letter_status_ABSENT_iff)
  then have "filter (\<lambda>l. letter l = c \<and> status l \<noteq> ABSENT) (buildGuessFromWord w wd) =
             filter ((\<lambda>x. x = c \<and> x \<in> set (word w)) \<circ> letter) (buildGuessFromWord w wd)"
    by (intro filter_cong) auto
  then have "length (filter (\<lambda>l. letter l = c \<and> status l \<noteq> ABSENT) (buildGuessFromWord w wd)) =
             length (filter (\<lambda>x. x = c \<and> x \<in> set (word w)) wd)"
    by (metis length_filter_map map_letter_buildGuessFromWord)
  moreover have "filter (\<lambda>x. x = c \<and> x \<in> set (word w)) wd =
                 (if c \<in> set (word w) then filter (\<lambda>x. x = c) wd else [])"
    by (induction wd) auto
  ultimately show ?thesis by (simp add: length_filter_eq_count_list)
qed

end
