(* ===== verification/Session.thy ===== *)
theory Session
  imports Scoring
begin

text \<open>
  A game played on one \<open>Wordle\<close> instance. \<open>appendGuess\<close> returns the
  instance itself (\<^verbatim>\<open>return this\<close>, wordle.js line 65), so a client chains
  calls, \<open>game.appendGuess(a).appendGuess(b)\<close>, and the chain stops at the
  first throw: that is \<open>run\<close>. The instances a program can hold are the ones
  the constructor returns and accepted guesses lead to: the inductive
  predicate \<open>reachable\<close>.

  The abstract specification is a game of guessed words (\<open>game\<close>): a secret,
  a limit, and the words accepted so far, upper-cased. \<open>spec_submit\<close> is
  the contract of a submission (checks in the order exhaustion, length,
  dictionary, with the messages of the code), \<open>spec_solved\<close> says that the
  last word is the secret, \<open>spec_over\<close> that the game is solved or the
  limit reached. \<open>game_of\<close> abstracts an instance to its game.
\<close>

fun run :: "(js_string \<Rightarrow> bool) \<Rightarrow> wordle \<Rightarrow> js_string list \<Rightarrow> wordle ws_result" where
  "run isWord w [] = ([], Inr w)"
| "run isWord w (wd # wds) =
     (case appendGuess isWord w wd of
        (cs, Inl e) \<Rightarrow> (cs, Inl e)
      | (cs, Inr w') \<Rightarrow> (case run isWord w' wds of (cs', r) \<Rightarrow> (cs @ cs', r)))"

inductive reachable :: "(js_string \<Rightarrow> bool) \<Rightarrow> wordle \<Rightarrow> bool" where
  created: "snd (new_Wordle got arg) = Inr w \<Longrightarrow> reachable isWord w"
| guessed: "reachable isWord w \<Longrightarrow> snd (appendGuess isWord w wd) = Inr w' \<Longrightarrow> reachable isWord w'"

record game =
  secret :: js_string
  limit :: nat
  words :: "js_string list"

definition spec_submit :: "(js_string \<Rightarrow> bool) \<Rightarrow> game \<Rightarrow> js_string \<Rightarrow> js_error + game" where
  "spec_submit isWord g wd =
     (let u = toUpperCase wd
      in if limit g \<le> length (words g) then Inl (Error ''No more guesses allowed'')
         else if length u \<noteq> 5 then Inl (Error ''Guess must be of length 5'')
         else if \<not> isWord u then Inl (Error ''Guess must be a word'')
         else Inr (g\<lparr>words := words g @ [u]\<rparr>))"

fun spec_run :: "(js_string \<Rightarrow> bool) \<Rightarrow> game \<Rightarrow> js_string list \<Rightarrow> js_error + game" where
  "spec_run isWord g [] = Inr g"
| "spec_run isWord g (wd # wds) =
     (case spec_submit isWord g wd of Inl e \<Rightarrow> Inl e | Inr g' \<Rightarrow> spec_run isWord g' wds)"

definition spec_solved :: "game \<Rightarrow> bool" where
  "spec_solved g = (words g \<noteq> [] \<and> last (words g) = secret g)"

definition spec_over :: "game \<Rightarrow> bool" where
  "spec_over g = (spec_solved g \<or> limit g \<le> length (words g))"

definition game_of :: "wordle \<Rightarrow> game" where
  "game_of w =
     \<lparr>secret = word w, limit = nat (maxGuesses w),
      words = map (\<lambda>slot. case slot of None \<Rightarrow> [] | Some g \<Rightarrow> map letter g)
                  (take (nat (currGuess w)) (guesses w))\<rparr>"

section \<open>Chained calls\<close>

lemma run_Cons_Inr:
  "snd (run isWord w (wd # wds)) = Inr w'' \<longleftrightarrow>
     (\<exists>w'. snd (appendGuess isWord w wd) = Inr w' \<and> snd (run isWord w' wds) = Inr w'')"
  by (cases "appendGuess isWord w wd") (auto split: sum.splits prod.splits)

lemma run_Cons_Inl:
  "snd (appendGuess isWord w wd) = Inl e \<Longrightarrow> snd (run isWord w (wd # wds)) = Inl e"
  by (cases "appendGuess isWord w wd") auto

lemma run_Cons_step:
  "snd (appendGuess isWord w wd) = Inr w' \<Longrightarrow> snd (run isWord w (wd # wds)) = snd (run isWord w' wds)"
  by (cases "appendGuess isWord w wd") (auto split: prod.splits)

lemma run_keeps_inv:
  "wordle_inv w \<Longrightarrow> snd (run isWord w ws) = Inr w' \<Longrightarrow> wordle_inv w'"
proof (induction ws arbitrary: w)
  case Nil
  then show ?case by simp
next
  case (Cons wd wds)
  from Cons.prems(2) obtain v
    where v: "snd (appendGuess isWord w wd) = Inr v" "snd (run isWord v wds) = Inr w'"
    unfolding run_Cons_Inr by blast
  from Cons.prems(1) v(1) have "wordle_inv v" by (rule appendGuess_keeps_inv)
  then show ?case using v(2) by (rule Cons.IH)
qed

section \<open>The abstraction to a game of words\<close>

lemma length_words_game_of:
  "wordle_inv w \<Longrightarrow> length (words (game_of w)) = nat (currGuess w)"
  unfolding wordle_inv_def game_of_def by (auto simp: min_def)

lemma game_of_store:
  assumes inv: "wordle_inv w" and more: "currGuess w < maxGuesses w"
  shows "game_of (w\<lparr>guesses := js_set None (guesses w) (currGuess w) (Some g),
                    currGuess := currGuess w + 1\<rparr>) =
         (game_of w)\<lparr>words := words (game_of w) @ [map letter g]\<rparr>"
proof -
  obtain c where c: "currGuess w = int c" and c_lt: "c < length (guesses w)"
    using inv more by (rule wordle_inv_slot)
  have "take (Suc c) ((guesses w)[c := Some g]) = take c (guesses w) @ [Some g]"
    using c_lt by (simp add: take_Suc_conv_app_nth take_update_cancel)
  then show ?thesis
    using c c_lt by (simp add: game_of_def js_simps nat_add_distrib)
qed

lemma exhausted_game_of:
  assumes "wordle_inv w"
  shows "limit (game_of w) \<le> length (words (game_of w)) \<longleftrightarrow> maxGuesses w \<le> currGuess w"
proof -
  have c: "0 \<le> currGuess w" using assms by (simp add: wordle_inv_def)
  have lim: "limit (game_of w) = nat (maxGuesses w)" by (simp add: game_of_def)
  show ?thesis
    unfolding lim length_words_game_of [OF assms] using c by (simp add: nat_le_eq_zle)
qed

lemma appendGuess_game_of:
  assumes inv: "wordle_inv w"
  shows "map_sum id game_of (snd (appendGuess isWord w wd)) = spec_submit isWord (game_of w) wd"
proof -
  have exh: "limit (game_of w) \<le> length (words (game_of w)) \<longleftrightarrow> maxGuesses w \<le> currGuess w"
    using inv by (rule exhausted_game_of)
  have size: "wordSize w = 5" using inv by (simp add: wordle_inv_def)
  show ?thesis
  proof (cases "currGuess w < maxGuesses w \<and> length wd = 5 \<and> isWord (toUpperCase wd)")
    case True
    then have "snd (appendGuess isWord w wd) =
      Inr (w\<lparr>guesses := js_set None (guesses w) (currGuess w)
                           (Some (buildGuessFromWord w (toUpperCase wd))),
             currGuess := currGuess w + 1\<rparr>)"
      using size by (simp add: appendGuess_Inr)
    with True inv exh show ?thesis by (simp add: game_of_store spec_submit_def)
  next
    case False
    with exh size show ?thesis by (auto simp: appendGuess_def spec_submit_def Let_def)
  qed
qed

lemma isSolved_game_of:
  assumes inv: "wordle_inv w" and len: "length (word w) = wordSize w"
  shows "isSolved w \<longleftrightarrow> spec_solved (game_of w)"
proof -
  from inv have "0 \<le> currGuess w" by (simp add: wordle_inv_def)
  then obtain c where c: "currGuess w = int c" by (metis nonneg_int_cases)
  show ?thesis
  proof (cases c)
    case 0
    then show ?thesis using c by (simp add: isSolved_def js_get_def spec_solved_def game_of_def)
  next
    case (Suc k)
    from inv c Suc have "int k < maxGuesses w" "length (guesses w) = nat (maxGuesses w)"
      by (simp_all add: wordle_inv_def)
    then have k: "k < length (guesses w)" by simp
    with inv c Suc have "guesses w ! k \<noteq> None" by (simp add: wordle_inv_def)
    then obtain g where g: "guesses w ! k = Some g" by blast
    from inv k have "stored_guess_ok w (guesses w ! k)" by (simp add: wordle_inv_def list_all_length)
    with g have g_ok: "g = buildGuessFromWord w (map letter g)" "length g = wordSize w"
      by (simp_all add: stored_guess_ok_def)
    have "isSolved w \<longleftrightarrow> list_all (\<lambda>l. status l = CORRECT) g"
      using c Suc k g by (simp add: isSolved_def js_get_def)
    also have "\<dots> \<longleftrightarrow> map letter g = word w"
      using g_ok len list_all_CORRECT_same_length [of "map letter g" w] by simp
    also have "\<dots> \<longleftrightarrow> spec_solved (game_of w)"
    proof -
      have "nat (currGuess w) = Suc k" using c Suc by simp
      then have ws: "words (game_of w) =
                   map (case_option [] (map letter)) (take k (guesses w)) @ [map letter g]"
        using k g by (simp add: game_of_def take_Suc_conv_app_nth)
      have sec: "secret (game_of w) = word w" by (simp add: game_of_def)
      show ?thesis by (simp add: spec_solved_def ws sec)
    qed
    finally show ?thesis .
  qed
qed

lemma appendGuess_frame:
  "snd (appendGuess isWord w wd) = Inr w' \<Longrightarrow>
   word w' = word w \<and> maxGuesses w' = maxGuesses w \<and> wordSize w' = wordSize w \<and>
   currGuess w' = currGuess w + 1"
  by (simp add: appendGuess_Inr)

lemma run_counts:
  "snd (run isWord w ws) = Inr w' \<Longrightarrow>
   word w' = word w \<and> maxGuesses w' = maxGuesses w \<and> wordSize w' = wordSize w \<and>
   currGuess w' = currGuess w + int (length ws)"
proof (induction ws arbitrary: w)
  case Nil
  then show ?case by simp
next
  case (Cons wd wds)
  from Cons.prems obtain v
    where v: "snd (appendGuess isWord w wd) = Inr v" "snd (run isWord v wds) = Inr w'"
    unfolding run_Cons_Inr by blast
  from v(1) have "word v = word w \<and> maxGuesses v = maxGuesses w \<and> wordSize v = wordSize w \<and>
                  currGuess v = currGuess w + 1" by (rule appendGuess_frame)
  with Cons.IH [OF v(2)] show ?case by simp
qed

section \<open>Properties of a game\<close>

text \<open>
  C9. Every instance the program can hold satisfies the invariant: the
  guesses array keeps \<open>maxGuesses\<close> slots, the counter stays within
  \<open>0 .. maxGuesses\<close>, the filled slots are exactly the first \<open>currGuess\<close>,
  and each holds the scoring of its word. Rule induction over \<open>reachable\<close>.
\<close>

lemma reachable_wordle_inv: "reachable isWord w \<Longrightarrow> wordle_inv w"
proof (induction rule: reachable.induct)
  case (created got arg w isWord)
  then show ?case by (rule new_Wordle_establishes_inv)
next
  case (guessed isWord w wd w')
  from guessed.IH guessed.hyps(2) show ?case by (rule appendGuess_keeps_inv)
qed

lemma reachable_wordle_inv_witness:
  "reachable (\<lambda>_. True) \<lparr>wordSize = 5, maxGuesses = 6, guesses = replicate 6 None, word = ''APPLE'', currGuess = 0\<rparr> \<and> wordle_inv \<lparr>wordSize = 5, maxGuesses = 6, guesses = replicate 6 None, word = ''APPLE'', currGuess = 0\<rparr>"
proof -
  have "snd (new_Wordle ''APPLE'' None) = Inr \<lparr>wordSize = 5, maxGuesses = 6, guesses = replicate 6 None, word = ''APPLE'', currGuess = 0\<rparr>"
    by (simp add: new_Wordle_def)
  then have r: "reachable (\<lambda>_. True) \<lparr>wordSize = 5, maxGuesses = 6, guesses = replicate 6 None, word = ''APPLE'', currGuess = 0\<rparr>" by (rule reachable.created)
  then show ?thesis using reachable_wordle_inv [OF r] by simp
qed

text \<open>
  C10. \<open>isSolved\<close> and \<open>shouldEndGame\<close> implement the abstract game: for
  an instance satisfying the invariant whose secret word has the word size,
  the game is solved exactly when the last accepted word is the secret word,
  and it ends exactly when it is solved or the limit of guesses is reached.
\<close>

lemma isSolved_shouldEndGame_refine:
  assumes inv: "wordle_inv w" and len: "length (word w) = wordSize w"
  shows "(isSolved w \<longleftrightarrow> spec_solved (game_of w)) \<and>
         (shouldEndGame w \<longleftrightarrow> spec_over (game_of w))"
  using isSolved_game_of [OF inv len] exhausted_game_of [OF inv]
  by (simp add: shouldEndGame_def spec_over_def)

lemma isSolved_shouldEndGame_refine_witness:
  "wordle_inv \<lparr>wordSize = 5, maxGuesses = 6, guesses = replicate 6 None, word = ''APPLE'', currGuess = 0\<rparr> \<and> length (word \<lparr>wordSize = 5, maxGuesses = 6, guesses = replicate 6 None, word = ''APPLE'', currGuess = 0\<rparr>) = wordSize \<lparr>wordSize = 5, maxGuesses = 6, guesses = replicate 6 None, word = ''APPLE'', currGuess = 0\<rparr> \<and>
   (isSolved \<lparr>wordSize = 5, maxGuesses = 6, guesses = replicate 6 None, word = ''APPLE'', currGuess = 0\<rparr> \<longleftrightarrow> spec_solved (game_of \<lparr>wordSize = 5, maxGuesses = 6, guesses = replicate 6 None, word = ''APPLE'', currGuess = 0\<rparr>)) \<and> (shouldEndGame \<lparr>wordSize = 5, maxGuesses = 6, guesses = replicate 6 None, word = ''APPLE'', currGuess = 0\<rparr> \<longleftrightarrow> spec_over (game_of \<lparr>wordSize = 5, maxGuesses = 6, guesses = replicate 6 None, word = ''APPLE'', currGuess = 0\<rparr>))"
proof -
  have inv: "wordle_inv \<lparr>wordSize = 5, maxGuesses = 6, guesses = replicate 6 None, word = ''APPLE'', currGuess = 0\<rparr>" by code_simp
  have len: "length (word \<lparr>wordSize = 5, maxGuesses = 6, guesses = replicate 6 None, word = ''APPLE'', currGuess = 0\<rparr>) = wordSize \<lparr>wordSize = 5, maxGuesses = 6, guesses = replicate 6 None, word = ''APPLE'', currGuess = 0\<rparr>" by simp
  from inv len isSolved_shouldEndGame_refine [OF inv len] show ?thesis by blast
qed

text \<open>
  C11. A chain of \<open>appendGuess\<close> calls implements the abstract game: the
  instance it ends in abstracts to the game the contract \<open>spec_run\<close>
  produces, and it throws the same error where the contract fails.
\<close>

lemma run_refines:
  "wordle_inv w \<Longrightarrow> map_sum id game_of (snd (run isWord w ws)) = spec_run isWord (game_of w) ws"
proof (induction ws arbitrary: w)
  case Nil
  then show ?case by simp
next
  case (Cons wd wds)
  have step: "map_sum id game_of (snd (appendGuess isWord w wd)) = spec_submit isWord (game_of w) wd"
    using Cons.prems by (rule appendGuess_game_of)
  show ?case
  proof (cases "snd (appendGuess isWord w wd)")
    case (Inl e)
    then have "snd (run isWord w (wd # wds)) = Inl e" by (rule run_Cons_Inl)
    moreover from Inl step have "spec_submit isWord (game_of w) wd = Inl e" by simp
    ultimately show ?thesis by (simp del: run.simps)
  next
    case (Inr v)
    have "wordle_inv v" using Cons.prems Inr by (rule appendGuess_keeps_inv)
    moreover have "snd (run isWord w (wd # wds)) = snd (run isWord v wds)"
      using Inr by (rule run_Cons_step)
    moreover from Inr step have "spec_submit isWord (game_of w) wd = Inr (game_of v)" by simp
    ultimately show ?thesis using Cons.IH [of v] by (simp del: run.simps)
  qed
qed

lemma run_refines_witness:
  "wordle_inv \<lparr>wordSize = 5, maxGuesses = 6, guesses = replicate 6 None, word = ''APPLE'', currGuess = 0\<rparr> \<and>
   map_sum id game_of (snd (run (\<lambda>_. True) \<lparr>wordSize = 5, maxGuesses = 6, guesses = replicate 6 None, word = ''APPLE'', currGuess = 0\<rparr> [''guess'', ''apple''])) =
   spec_run (\<lambda>_. True) (game_of \<lparr>wordSize = 5, maxGuesses = 6, guesses = replicate 6 None, word = ''APPLE'', currGuess = 0\<rparr>) [''guess'', ''apple'']"
proof -
  have inv: "wordle_inv \<lparr>wordSize = 5, maxGuesses = 6, guesses = replicate 6 None, word = ''APPLE'', currGuess = 0\<rparr>" by code_simp
  show ?thesis by (rule conjI [OF inv run_refines [OF inv]])
qed

text \<open>
  C16. No chain of accepted guesses is longer than the guesses left: a
  chain that returns has at most \<open>maxGuesses - currGuess\<close> words, and the
  counter has moved on by exactly their number.
\<close>

lemma run_accepted_bound:
  assumes inv: "wordle_inv w" and ok: "snd (run isWord w ws) = Inr w'"
  shows "int (length ws) \<le> maxGuesses w - currGuess w \<and> currGuess w' = currGuess w + int (length ws)"
proof -
  from ok have f: "maxGuesses w' = maxGuesses w \<and> currGuess w' = currGuess w + int (length ws)"
    by (simp add: run_counts)
  from inv ok have "wordle_inv w'" by (rule run_keeps_inv)
  then have "currGuess w' \<le> maxGuesses w'" by (simp add: wordle_inv_def)
  with f show ?thesis by simp
qed

lemma run_accepted_bound_witness:
  "wordle_inv \<lparr>wordSize = 5, maxGuesses = 6, guesses = replicate 6 None, word = ''APPLE'', currGuess = 0\<rparr> \<and>
   snd (run (\<lambda>_. True) \<lparr>wordSize = 5, maxGuesses = 6, guesses = replicate 6 None, word = ''APPLE'', currGuess = 0\<rparr> [''guess'', ''apple'']) = Inr (projr (snd (run (\<lambda>_. True) \<lparr>wordSize = 5, maxGuesses = 6, guesses = replicate 6 None, word = ''APPLE'', currGuess = 0\<rparr> [''guess'', ''apple'']))) \<and>
   int (length [''guess'', ''apple'']) \<le> maxGuesses \<lparr>wordSize = 5, maxGuesses = 6, guesses = replicate 6 None, word = ''APPLE'', currGuess = 0\<rparr> - currGuess \<lparr>wordSize = 5, maxGuesses = 6, guesses = replicate 6 None, word = ''APPLE'', currGuess = 0\<rparr> \<and>
   currGuess (projr (snd (run (\<lambda>_. True) \<lparr>wordSize = 5, maxGuesses = 6, guesses = replicate 6 None, word = ''APPLE'', currGuess = 0\<rparr> [''guess'', ''apple'']))) = currGuess \<lparr>wordSize = 5, maxGuesses = 6, guesses = replicate 6 None, word = ''APPLE'', currGuess = 0\<rparr> + 2"
proof -
  have inv: "wordle_inv \<lparr>wordSize = 5, maxGuesses = 6, guesses = replicate 6 None, word = ''APPLE'', currGuess = 0\<rparr>" by code_simp
  have ok: "snd (run (\<lambda>_. True) \<lparr>wordSize = 5, maxGuesses = 6, guesses = replicate 6 None, word = ''APPLE'', currGuess = 0\<rparr> [''guess'', ''apple'']) =
            Inr (projr (snd (run (\<lambda>_. True) \<lparr>wordSize = 5, maxGuesses = 6, guesses = replicate 6 None, word = ''APPLE'', currGuess = 0\<rparr> [''guess'', ''apple''])))" by code_simp
  show ?thesis using run_accepted_bound [OF inv ok] inv ok by simp
qed

text \<open>
  C17. The game can always be played to its end: from any instance
  satisfying the invariant, as long as the dictionary accepts some word of
  five letters, submitting it for each of the guesses left is accepted every
  time and leaves an instance for which \<open>shouldEndGame\<close> holds.
\<close>

lemma run_replicate_exhausts:
  assumes "wordle_inv w" "nat (maxGuesses w - currGuess w) = n" "length x = 5" "isWord (toUpperCase x)"
  shows "\<exists>w'. snd (run isWord w (replicate n x)) = Inr w' \<and> maxGuesses w' \<le> currGuess w'"
  using assms
proof (induction n arbitrary: w)
  case 0
  then have "maxGuesses w \<le> currGuess w" by simp
  then show ?case by simp
next
  case (Suc n)
  then have more: "currGuess w < maxGuesses w" by simp
  have size: "wordSize w = 5" using Suc.prems(1) by (simp add: wordle_inv_def)
  obtain v where v: "snd (appendGuess isWord w x) = Inr v"
    using more size Suc.prems(3,4) by (simp add: appendGuess_Inr)
  have inv_v: "wordle_inv v" using Suc.prems(1) v by (rule appendGuess_keeps_inv)
  from v have "maxGuesses v = maxGuesses w \<and> currGuess v = currGuess w + 1"
    by (simp add: appendGuess_frame)
  with Suc.prems(2) have "nat (maxGuesses v - currGuess v) = n" by simp
  from Suc.IH [OF inv_v this Suc.prems(3,4)] obtain w'
    where "snd (run isWord v (replicate n x)) = Inr w'" "maxGuesses w' \<le> currGuess w'" by blast
  moreover have "snd (run isWord w (x # replicate n x)) = snd (run isWord v (replicate n x))"
    using v by (rule run_Cons_step)
  ultimately show ?case by auto
qed

lemma game_can_be_finished:
  assumes "wordle_inv w" "length x = 5" "isWord (toUpperCase x)"
  shows "\<exists>w'. snd (run isWord w (replicate (nat (maxGuesses w - currGuess w)) x)) = Inr w' \<and>
              shouldEndGame w'"
  using run_replicate_exhausts [where isWord = isWord and x = x, OF assms(1) refl assms(2,3)]
  by (auto simp: shouldEndGame_def)

lemma game_can_be_finished_witness:
  "wordle_inv \<lparr>wordSize = 5, maxGuesses = 6, guesses = replicate 6 None, word = ''APPLE'', currGuess = 0\<rparr> \<and> length ''guess'' = 5 \<and> (\<lambda>_. True) (toUpperCase ''guess'') \<and>
   (\<exists>w'. snd (run (\<lambda>_. True) \<lparr>wordSize = 5, maxGuesses = 6, guesses = replicate 6 None, word = ''APPLE'', currGuess = 0\<rparr> (replicate (nat (maxGuesses \<lparr>wordSize = 5, maxGuesses = 6, guesses = replicate 6 None, word = ''APPLE'', currGuess = 0\<rparr> - currGuess \<lparr>wordSize = 5, maxGuesses = 6, guesses = replicate 6 None, word = ''APPLE'', currGuess = 0\<rparr>)) ''guess'')) = Inr w' \<and>
         shouldEndGame w')"
proof -
  have inv: "wordle_inv \<lparr>wordSize = 5, maxGuesses = 6, guesses = replicate 6 None, word = ''APPLE'', currGuess = 0\<rparr>" by code_simp
  show ?thesis using game_can_be_finished [OF inv, of "''guess''" "\<lambda>_. True"] inv by simp
qed

text \<open>
  C18. The secret word and the number of guesses are fixed for the lifetime
  of a game: a chain of accepted guesses from a reachable instance ends in a
  reachable instance with the same secret word and the same \<open>maxGuesses\<close>.
\<close>

lemma reachable_run_frame:
  "reachable isWord w \<Longrightarrow> snd (run isWord w ws) = Inr w' \<Longrightarrow>
   reachable isWord w' \<and> word w' = word w \<and> maxGuesses w' = maxGuesses w"
proof (induction ws arbitrary: w)
  case Nil
  then show ?case by simp
next
  case (Cons wd wds)
  from Cons.prems(2) obtain v
    where v: "snd (appendGuess isWord w wd) = Inr v" "snd (run isWord v wds) = Inr w'"
    unfolding run_Cons_Inr by blast
  from Cons.prems(1) v(1) have "reachable isWord v" by (rule reachable.guessed)
  from Cons.IH [OF this v(2)] v(1) show ?case by (simp add: appendGuess_frame)
qed

lemma reachable_run_frame_witness:
  "reachable (\<lambda>_. True) \<lparr>wordSize = 5, maxGuesses = 6, guesses = replicate 6 None, word = ''APPLE'', currGuess = 0\<rparr> \<and>
   snd (run (\<lambda>_. True) \<lparr>wordSize = 5, maxGuesses = 6, guesses = replicate 6 None, word = ''APPLE'', currGuess = 0\<rparr> [''guess'']) = Inr (projr (snd (run (\<lambda>_. True) \<lparr>wordSize = 5, maxGuesses = 6, guesses = replicate 6 None, word = ''APPLE'', currGuess = 0\<rparr> [''guess'']))) \<and>
   word (projr (snd (run (\<lambda>_. True) \<lparr>wordSize = 5, maxGuesses = 6, guesses = replicate 6 None, word = ''APPLE'', currGuess = 0\<rparr> [''guess'']))) = ''APPLE''"
proof -
  have "snd (new_Wordle ''APPLE'' None) = Inr \<lparr>wordSize = 5, maxGuesses = 6, guesses = replicate 6 None, word = ''APPLE'', currGuess = 0\<rparr>" by (simp add: new_Wordle_def)
  then have r: "reachable (\<lambda>_. True) \<lparr>wordSize = 5, maxGuesses = 6, guesses = replicate 6 None, word = ''APPLE'', currGuess = 0\<rparr>" by (rule reachable.created)
  have ok: "snd (run (\<lambda>_. True) \<lparr>wordSize = 5, maxGuesses = 6, guesses = replicate 6 None, word = ''APPLE'', currGuess = 0\<rparr> [''guess'']) = Inr (projr (snd (run (\<lambda>_. True) \<lparr>wordSize = 5, maxGuesses = 6, guesses = replicate 6 None, word = ''APPLE'', currGuess = 0\<rparr> [''guess''])))"
    by code_simp
  show ?thesis using reachable_run_frame [OF r ok] r ok by simp
qed

end
