(* ===== verification/Tests.thy ===== *)
theory Tests
  imports Wordle
begin

text \<open>
  The Jest suite \<^verbatim>\<open>src/__tests__/wordle.test.js\<close>. The module \<^verbatim>\<open>words.js\<close> is
  replaced by mocks (lines 4--10): \<open>getWord\<close> always returns \<open>APPLE\<close>, and
  \<open>isWord\<close> is the module-level \<open>jest.fn(() => true)\<close>, whose
  \<open>mockReturnValueOnce\<close> queues answers consumed one per call. The mock is
  created once for the file and is not reset between tests, so its queue is
  state threaded through the whole suite: a test is a function from the mock
  to its outcome and the mock after it, and \<open>run_suite\<close> runs the tests in
  file order.

  A test passes when every call it makes returns and every \<open>expect\<close> holds;
  a call that throws where the test does not expect it fails the test.
  \<open>toThrow()\<close> without an argument accepts any error. The implementation of
  \<open>appendGuess\<close> is a parameter of the tests (\<open>impl\<close>), so the same suite
  can be run against other implementations.
\<close>

record jest_mock =
  once_values :: "bool list"

type_synonym test = "jest_mock \<Rightarrow> bool \<times> jest_mock"

type_synonym impl = "(js_string \<Rightarrow> bool) \<Rightarrow> wordle \<Rightarrow> js_string \<Rightarrow> wordle ws_result"

definition mockIsWord :: "jest_mock \<Rightarrow> js_string \<Rightarrow> bool \<times> jest_mock" where
  "mockIsWord m x =
     (case once_values m of [] \<Rightarrow> (True, m) | b # bs \<Rightarrow> (b, m\<lparr>once_values := bs\<rparr>))"

definition mockReturnValueOnce :: "jest_mock \<Rightarrow> bool \<Rightarrow> jest_mock" where
  "mockReturnValueOnce m b = m\<lparr>once_values := once_values m @ [b]\<rparr>"

definition getWord_mock :: js_string where
  "getWord_mock = ''APPLE''"

text \<open>
  A call of \<open>appendGuess\<close> on the mocked module: \<open>isWord\<close> answers from the
  mock, and the mock is advanced once for every \<open>isWord\<close> call the method
  makes (its call list), which is at most one.
\<close>

definition consume_calls :: "jest_mock \<Rightarrow> ws_call list \<Rightarrow> jest_mock" where
  "consume_calls m cs =
     fold (\<lambda>c m. case c of IsWord x \<Rightarrow> snd (mockIsWord m x) | GetWord \<Rightarrow> m) cs m"

definition appendGuess_mocked :: "impl \<Rightarrow> jest_mock \<Rightarrow> wordle \<Rightarrow> js_string \<Rightarrow> jest_mock \<times> wordle ws_result" where
  "appendGuess_mocked ag m w wd =
     (let r = ag (\<lambda>x. fst (mockIsWord m x)) w wd in (consume_calls m (fst r), r))"

section \<open>Test steps\<close>

definition constructed :: "js_int option \<Rightarrow> (wordle \<Rightarrow> test) \<Rightarrow> test" where
  "constructed arg k m =
     (case snd (new_Wordle getWord_mock arg) of Inl _ \<Rightarrow> (False, m) | Inr w \<Rightarrow> k w m)"

definition appended :: "impl \<Rightarrow> js_string \<Rightarrow> (wordle \<Rightarrow> test) \<Rightarrow> wordle \<Rightarrow> test" where
  "appended ag wd k w m =
     (case appendGuess_mocked ag m w wd of
        (m', _, Inl _) \<Rightarrow> (False, m')
      | (m', _, Inr w') \<Rightarrow> k w' m')"

definition throws :: "impl \<Rightarrow> js_string \<Rightarrow> wordle \<Rightarrow> test" where
  "throws ag wd w m = (case appendGuess_mocked ag m w wd of (m', _, r) \<Rightarrow> (isl r, m'))"

definition expect :: "bool \<Rightarrow> test" where
  "expect b m = (b, m)"

section \<open>The tests, in file order\<close>

definition wordle_suite :: "impl \<Rightarrow> test list" where
  "wordle_suite ag = [
     \<comment> \<open>building a letter object\<close>
     expect (buildLetter ''string1'' ''string2'' = \<lparr>letter = ''string1'', status = ''string2''\<rparr>),
     \<comment> \<open>constructing a new Wordle game\<close>
     constructed None (\<lambda>w. expect (maxGuesses w = 6)),
     constructed (Some 10) (\<lambda>w. expect (maxGuesses w = 10)),
     constructed None (\<lambda>w. expect (int (length (guesses w)) = maxGuesses w)),
     constructed None (\<lambda>w. expect (currGuess w = 0)),
     constructed None (\<lambda>w. expect True),
     constructed None (\<lambda>w. expect (word w = ''APPLE'')),
     \<comment> \<open>buildGuessFromWord\<close>
     constructed None (\<lambda>w. expect (LETTER_STATUSES (status (buildGuessFromWord w ''A____'' ! 0)) = ''CORRECT'')),
     constructed None (\<lambda>w. expect (LETTER_STATUSES (status (buildGuessFromWord w ''E____'' ! 0)) = ''PRESENT'')),
     constructed None (\<lambda>w. expect (LETTER_STATUSES (status (buildGuessFromWord w ''T____'' ! 0)) = ''ABSENT'')),
     \<comment> \<open>appendGuess\<close>
     constructed (Some 1) (appended ag ''GUESS'' (throws ag ''GUESS'')),
     constructed None (throws ag ''GUES''),
     constructed None (\<lambda>w m. throws ag ''GUESS'' w (mockReturnValueOnce m False)),
     constructed None (appended ag ''GUESS'' (\<lambda>w. expect (currGuess w = 1))),
     \<comment> \<open>isSolved\<close>
     constructed None (appended ag ''APPLE'' (\<lambda>w. expect (isSolved w = True))),
     constructed None (appended ag ''GUESS'' (\<lambda>w. expect (isSolved w = False))),
     \<comment> \<open>shouldEndGame\<close>
     constructed None (appended ag ''APPLE'' (\<lambda>w. expect (shouldEndGame w = True))),
     constructed (Some 1) (appended ag ''GUESS'' (\<lambda>w. expect (shouldEndGame w = True))),
     constructed None (\<lambda>w. expect (shouldEndGame w = False)),
     constructed None (appended ag ''GUESS'' (\<lambda>w. expect (shouldEndGame w = False)))]"

fun run_suite :: "test list \<Rightarrow> jest_mock \<Rightarrow> bool list \<times> jest_mock" where
  "run_suite [] m = ([], m)"
| "run_suite (t # ts) m =
     (case t m of (ok, m') \<Rightarrow> (case run_suite ts m' of (oks, m'') \<Rightarrow> (ok # oks, m'')))"

end
