(* ===== verification/WordSource.thy ===== *)
theory WordSource
  imports Wordle
begin

text \<open>
  The module \<^verbatim>\<open>words.js\<close> that \<^verbatim>\<open>src/src/wordle.js\<close> imports is not among the
  sources; it is modelled from the spec (section 6, WordSource): a word list,
  \<open>getWord\<close> picking one of its words (the random choice is the index
  \<open>r\<close>), and \<open>isWord\<close> testing membership. The contract the class relies on
  is \<open>word_list_ok\<close>: the list is not empty and holds five-letter words in
  upper case.
\<close>

definition getWord :: "js_string list \<Rightarrow> nat \<Rightarrow> js_string" where
  "getWord ws r = ws ! (r mod length ws)"

definition isWord :: "js_string list \<Rightarrow> js_string \<Rightarrow> bool" where
  "isWord ws x = (x \<in> set ws)"

definition word_list_ok :: "js_string list \<Rightarrow> bool" where
  "word_list_ok ws = (ws \<noteq> [] \<and> list_all (\<lambda>x. length x = 5 \<and> toUpperCase x = x) ws)"

lemma getWord_in_list: "ws \<noteq> [] \<Longrightarrow> getWord ws r \<in> set ws"
  by (simp add: getWord_def)

lemma getWord_fits:
  assumes "word_list_ok ws"
  shows "length (getWord ws r) = 5 \<and> toUpperCase (getWord ws r) = getWord ws r"
proof -
  from assms have "getWord ws r \<in> set ws" by (simp add: word_list_ok_def getWord_in_list)
  with assms show ?thesis by (simp add: word_list_ok_def list_all_iff)
qed

lemma isWord_fits:
  "word_list_ok ws \<Longrightarrow> isWord ws x \<Longrightarrow> length x = 5"
  by (auto simp: word_list_ok_def isWord_def list_all_iff)

lemma new_Wordle_from_getWord:
  assumes "word_list_ok ws" "snd (new_Wordle (getWord ws r) arg) = Inr w"
  shows "word w = getWord ws r \<and> length (word w) = wordSize w"
  using assms getWord_fits [OF assms(1), of r] by (auto simp: new_Wordle_Inr Let_def)

end
