(* ===== verification/Spec2Isabelle.thy ===== *)
theory Spec2Isabelle
  imports Session Tests WordSource
begin

text \<open>
  \<^bold>\<open>A verification development for the Wordle game engine\<close>
  (\<^verbatim>\<open>src/src/wordle.js\<close>, with its Jest suite \<^verbatim>\<open>src/__tests__/wordle.test.js\<close>).

  \<^bold>\<open>The program.\<close> One class, \<open>Wordle\<close>, holds a game: the secret word,
  the word size (5), the number of guesses allowed, an array of scored guesses
  and the index of the next guess. Its constructor draws the secret word from
  \<open>getWord()\<close> of the module \<^verbatim>\<open>words.js\<close>; \<open>appendGuess\<close> validates a word in a
  fixed order (guesses left, then length, then \<open>isWord\<close> of \<^verbatim>\<open>words.js\<close>),
  scores it with \<open>buildGuessFromWord\<close> and stores it; \<open>isSolved\<close> and
  \<open>shouldEndGame\<close> read the state. \<open>buildLetter\<close> and \<open>LETTER_STATUSES\<close>
  build the scored letters. \<^verbatim>\<open>words.js\<close> is not part of the sources.

  \<^bold>\<open>Theories.\<close>
  \<^item> \<open>Prelude\<close>: the JavaScript primitives the class uses, with the
    behaviour the language gives them: array and string reads that yield
    \<open>undefined\<close> (\<open>js_get\<close>), array writes that grow the array
    (\<open>js_set\<close>), \<open>toUpperCase\<close> (exact on ASCII); their lemmas, collected
    in \<open>js_simps\<close>.
  \<^item> \<open>Letters\<close>: \<open>LETTER_STATUSES\<close> as the datatype \<open>status\<close>, letter
    objects as the record \<open>letter_obj\<close>, \<open>buildLetter\<close> (wordle.js 3--16).
  \<^item> \<open>Wordle\<close>: the class (wordle.js 18--77). Instance fields are the record
    \<open>wordle\<close>; the constructor is \<open>new_Wordle\<close>, the methods are
    \<open>buildGuessFromWord\<close> (with its per-letter rule \<open>letter_status\<close>),
    \<open>appendGuess\<close>, \<open>isSolved\<close>, \<open>shouldEndGame\<close>. Mutation is state
    passing; a \<open>throw\<close> is \<open>Inl\<close> of \<open>js_error\<close>, carrying the message.
    The word source is an interface: the constructor receives the value of its
    \<open>getWord()\<close> call, \<open>appendGuess\<close> receives \<open>isWord\<close> as a predicate, and
    both return the calls they make on it (\<open>ws_call\<close>) in order. The
    invariant \<open>wordle_inv\<close> says what every instance satisfies, and the
    constructor establishes it and \<open>appendGuess\<close> keeps it.
  \<^item> \<open>Scoring\<close>: what \<open>buildGuessFromWord\<close> computes, and the standard
    two-pass Wordle scoring (\<open>standard_score\<close>, a reference definition, not
    code of the repository) to compare it with.
  \<^item> \<open>Session\<close>: a game on one instance. Chained calls (\<open>run\<close>, possible
    because \<open>appendGuess\<close> returns \<open>this\<close>), the instances a program can
    hold (\<open>reachable\<close>, an inductive predicate), and the abstract game of
    guessed words (\<open>game\<close>, \<open>spec_submit\<close>, \<open>spec_run\<close>, \<open>spec_solved\<close>,
    \<open>spec_over\<close>) with the abstraction \<open>game_of\<close>.
  \<^item> \<open>WordSource\<close>: \<^verbatim>\<open>words.js\<close>, modelled from the spec as a word list with
    \<open>getWord\<close> (the random pick is an index parameter) and \<open>isWord\<close>
    (membership); \<open>word_list_ok\<close> is its contract.
  \<^item> \<open>Tests\<close>: the Jest suite. The module-level \<open>isWord\<close> mock and its
    queue of once-values are state threaded through the tests in file order;
    each test is an element of \<open>wordle_suite\<close>, parameterised by the
    implementation of \<open>appendGuess\<close>.
  \<^item> this theory: the properties that need the class and the word source
    together.

  \<^bold>\<open>What is proved.\<close>
  \<^item> \<open>appendGuess\<close>, branch by branch: an accepted guess is scored, stored in
    slot \<open>currGuess\<close> and counted (C1); the three checks in source order with
    their messages (C2--C4); which word-source calls each branch makes (C7).
  \<^item> The constructor: the \<open>RangeError\<close> of \<open>new Array\<close> outside the
    array-length bounds (C5) and its single \<open>getWord\<close> call (C8).
    \<open>isSolved\<close> is false before any guess (C6).
  \<^item> Reachable instances satisfy the invariant, by rule induction (C9);
    \<open>isSolved\<close>/\<open>shouldEndGame\<close> and chains of calls refine the abstract
    game (C10, C11).
  \<^item> Scoring: the status of every position in closed form (C12); all
    \<open>CORRECT\<close> iff the guess is a prefix of the secret (C13); equal to the
    standard scoring on guesses without repeated letters (C14); a letter of
    the secret is credited at every occurrence in the guess, however often
    the secret holds it (C15).
  \<^item> Games: a chain of accepted guesses is never longer than the guesses
    left (C16); the game can always be played to its end when the
    dictionary has a five-letter word (C17); the secret and the limit never
    change (C18).
  \<^item> Across components: with a conforming word source, solved means the last
    accepted word is the secret (C19); every stored guess is a dictionary
    word (C20).
  \<^item> The theory \<open>Tests\<close> models the suite so that its tests can be read
    against the model; it states no property of its own.

  \<^bold>\<open>Bounds.\<close> \<open>maxGuesses\<close> is a JavaScript number used as an array length, so
  the model keeps it as an integer and writes out the bound \<open>0 \<le> n < 2\<^sup>3\<^sup>2\<close>
  that \<open>new Array(n)\<close> checks; the invariant carries it. No loop of the
  program needs fuel: the only iteration is the \<open>map\<close> over the guessed word,
  and a game is bounded by \<open>maxGuesses\<close> accepted guesses (C16).

  \<^bold>\<open>Not modelled.\<close> Arguments of the constructor that are not integers
  (JavaScript would build a one-element array from a string argument, and
  throw on a fractional one); direct writes to the public fields by clients;
  characters outside ASCII, whose upper-casing in JavaScript can change the
  length of a string; the implementation of \<^verbatim>\<open>words.js\<close>, which is not in
  the repository (modelled from the spec instead). Holes that a write past the
  end of an array would leave are modelled as \<open>null\<close>; both read as absent
  in \<open>isSolved\<close>, and the invariant shows such writes never happen.

  \<^bold>\<open>Plan.\<close> Further properties: the spec's "exactly one call" statements for
  whole games (the call log of \<open>run\<close>), equivalence of \<open>isSolved\<close> with the
  spec's wording on every reachable state without the word-source contract
  (the prefix behaviour), and type-class instances (\<open>linorder\<close> on
  \<open>status\<close>) if an ordering of statuses is needed.
\<close>

definition stored_in_dictionary :: "js_string list \<Rightarrow> wordle \<Rightarrow> bool" where
  "stored_in_dictionary ws w =
     list_all (\<lambda>slot. case slot of None \<Rightarrow> True | Some g \<Rightarrow> isWord ws (map letter g)) (guesses w)"

section \<open>Properties across the class and the word source\<close>

lemma stored_in_dictionary_store:
  assumes "stored_in_dictionary ws w" "c < length (guesses w)" "isWord ws (map letter g)"
  shows "stored_in_dictionary ws (w\<lparr>guesses := (guesses w)[c := Some g], currGuess := k\<rparr>)"
  using assms by (auto simp: stored_in_dictionary_def list_all_length nth_list_update)

lemma appendGuess_stored_in_dictionary:
  assumes inv: "wordle_inv w" and dict: "stored_in_dictionary ws w"
    and ok: "snd (appendGuess (isWord ws) w wd) = Inr w'"
  shows "stored_in_dictionary ws w'"
proof -
  from ok have more: "currGuess w < maxGuesses w" and known: "isWord ws (toUpperCase wd)"
    and w': "w' = w\<lparr>guesses := js_set None (guesses w) (currGuess w)
                       (Some (buildGuessFromWord w (toUpperCase wd))),
                    currGuess := currGuess w + 1\<rparr>"
    by (simp_all add: appendGuess_Inr)
  obtain c where c: "currGuess w = int c" and c_lt: "c < length (guesses w)"
    using inv more by (rule wordle_inv_slot)
  have "isWord ws (map letter (buildGuessFromWord w (toUpperCase wd)))"
    using known by simp
  with dict c_lt show ?thesis
    unfolding w' c js_set_in_range [OF c_lt] by (rule stored_in_dictionary_store)
qed

text \<open>
  C19. With a word source that keeps its contract, the game is solved
  exactly when the last accepted word is the secret word \<open>getWord\<close> drew:
  the secret has the word size, so a guess that scores all \<open>CORRECT\<close> is
  the secret itself.
\<close>

theorem solved_iff_secret_guessed:
  assumes ws: "word_list_ok ws" and new: "snd (new_Wordle (getWord ws r) arg) = Inr w"
    and played: "snd (run (isWord ws) w gs) = Inr w'"
  shows "isSolved w' \<longleftrightarrow> words (game_of w') \<noteq> [] \<and> last (words (game_of w')) = getWord ws r"
proof -
  have inv: "wordle_inv w" using new by (rule new_Wordle_establishes_inv)
  have inv': "wordle_inv w'" using inv played by (rule run_keeps_inv)
  have secret: "word w = getWord ws r \<and> length (word w) = wordSize w"
    using ws new by (rule new_Wordle_from_getWord)
  have "word w' = word w \<and> wordSize w' = wordSize w"
    using played by (simp add: run_counts)
  with secret have len: "length (word w') = wordSize w'" and sec: "word w' = getWord ws r"
    by (metis, metis)
  have "secret (game_of w') = word w'" by (simp add: game_of_def)
  with isSolved_game_of [OF inv' len] sec show ?thesis by (simp add: spec_solved_def)
qed

theorem solved_iff_secret_guessed_witness:
  "word_list_ok [''APPLE'', ''GUESS''] \<and>
   snd (new_Wordle (getWord [''APPLE'', ''GUESS''] 0) None) = Inr \<lparr>wordSize = 5, maxGuesses = 6, guesses = replicate 6 None, word = ''APPLE'', currGuess = 0\<rparr> \<and>
   snd (run (isWord [''APPLE'', ''GUESS'']) \<lparr>wordSize = 5, maxGuesses = 6, guesses = replicate 6 None, word = ''APPLE'', currGuess = 0\<rparr> [''guess'', ''apple'']) =
     Inr (projr (snd (run (isWord [''APPLE'', ''GUESS'']) \<lparr>wordSize = 5, maxGuesses = 6, guesses = replicate 6 None, word = ''APPLE'', currGuess = 0\<rparr> [''guess'', ''apple'']))) \<and>
   isSolved (projr (snd (run (isWord [''APPLE'', ''GUESS'']) \<lparr>wordSize = 5, maxGuesses = 6, guesses = replicate 6 None, word = ''APPLE'', currGuess = 0\<rparr> [''guess'', ''apple''])))"
proof -
  have ws: "word_list_ok [''APPLE'', ''GUESS'']" by code_simp
  have new: "snd (new_Wordle (getWord [''APPLE'', ''GUESS''] 0) None) = Inr \<lparr>wordSize = 5, maxGuesses = 6, guesses = replicate 6 None, word = ''APPLE'', currGuess = 0\<rparr>"
    by (simp add: new_Wordle_def getWord_def)
  have played: "snd (run (isWord [''APPLE'', ''GUESS'']) \<lparr>wordSize = 5, maxGuesses = 6, guesses = replicate 6 None, word = ''APPLE'', currGuess = 0\<rparr> [''guess'', ''apple'']) =
     Inr (projr (snd (run (isWord [''APPLE'', ''GUESS'']) \<lparr>wordSize = 5, maxGuesses = 6, guesses = replicate 6 None, word = ''APPLE'', currGuess = 0\<rparr> [''guess'', ''apple''])))"
    by code_simp
  have words: "words (game_of (projr (snd (run (isWord [''APPLE'', ''GUESS'']) \<lparr>wordSize = 5, maxGuesses = 6, guesses = replicate 6 None, word = ''APPLE'', currGuess = 0\<rparr> [''guess'', ''apple''])))) =
     [''GUESS'', ''APPLE'']"
    by code_simp
  show ?thesis
    using solved_iff_secret_guessed [OF ws new played] ws new played words
    by (simp add: getWord_def)
qed

text \<open>
  C20. Every guess stored in a game played against the word source spells a
  word of the dictionary: \<open>appendGuess\<close> stores a guess only after
  \<open>isWord\<close> accepted its upper-cased form. Rule induction over
  \<open>reachable\<close>, carried together with the instance invariant.
\<close>

theorem reachable_guesses_in_dictionary:
  "reachable (isWord ws) w \<Longrightarrow> stored_in_dictionary ws w"
proof -
  assume "reachable (isWord ws) w"
  then have "wordle_inv w \<and> stored_in_dictionary ws w"
  proof (induction "isWord ws" w rule: reachable.induct)
    case (created got arg w)
    then show ?case
      by (auto simp: new_Wordle_establishes_inv new_Wordle_Inr Let_def stored_in_dictionary_def list_all_iff)
  next
    case (guessed w wd w')
    then show ?case
      by (blast intro: appendGuess_keeps_inv appendGuess_stored_in_dictionary)
  qed
  then show ?thesis ..
qed

theorem reachable_guesses_in_dictionary_witness:
  "reachable (isWord [''APPLE'']) (projr (snd (appendGuess (isWord [''APPLE'']) \<lparr>wordSize = 5, maxGuesses = 6, guesses = replicate 6 None, word = ''APPLE'', currGuess = 0\<rparr> ''apple''))) \<and>
   stored_in_dictionary [''APPLE''] (projr (snd (appendGuess (isWord [''APPLE'']) \<lparr>wordSize = 5, maxGuesses = 6, guesses = replicate 6 None, word = ''APPLE'', currGuess = 0\<rparr> ''apple'')))"
proof -
  have "snd (new_Wordle ''APPLE'' None) = Inr \<lparr>wordSize = 5, maxGuesses = 6, guesses = replicate 6 None, word = ''APPLE'', currGuess = 0\<rparr>" by (simp add: new_Wordle_def)
  then have r0: "reachable (isWord [''APPLE'']) \<lparr>wordSize = 5, maxGuesses = 6, guesses = replicate 6 None, word = ''APPLE'', currGuess = 0\<rparr>" by (rule reachable.created)
  have ok: "snd (appendGuess (isWord [''APPLE'']) \<lparr>wordSize = 5, maxGuesses = 6, guesses = replicate 6 None, word = ''APPLE'', currGuess = 0\<rparr> ''apple'') =
            Inr (projr (snd (appendGuess (isWord [''APPLE'']) \<lparr>wordSize = 5, maxGuesses = 6, guesses = replicate 6 None, word = ''APPLE'', currGuess = 0\<rparr> ''apple'')))" by code_simp
  have r1: "reachable (isWord [''APPLE'']) (projr (snd (appendGuess (isWord [''APPLE'']) \<lparr>wordSize = 5, maxGuesses = 6, guesses = replicate 6 None, word = ''APPLE'', currGuess = 0\<rparr> ''apple'')))"
    using r0 ok by (rule reachable.guessed)
  show ?thesis using reachable_guesses_in_dictionary [OF r1] r1 by simp
qed

end
